theory Spec2Isabelle
  imports Complex_Main
begin

section \<open>float64\<close>

text \<open>
  The coordinates, bounds and radii of the program are IEEE 754 binary64 numbers (Python
  floats, numpy float64). A value is NaN, an infinity, or a finite number; \<open>Fin x\<close> is the
  finite float of value \<open>x\<close>. The two zeros are one value here: they compare equal, and
  the program neither divides nor reads a sign. \<open>Fin x\<close> is written for any real \<open>x\<close>,
  so a statement about all values holds in particular of the doubles; what an operation
  returns is always rounded to a double.
\<close>

datatype float64 = NaN | NInf | Fin (fin_val: real) | PInf

text \<open>
  The comparisons \<^verbatim>\<open><\<close>, \<^verbatim>\<open><=\<close> and \<^verbatim>\<open>>=\<close>: exact on numbers, and false as soon as an
  operand is NaN.
\<close>

fun f_lt :: "float64 \<Rightarrow> float64 \<Rightarrow> bool" where
  "f_lt NaN b = False"
| "f_lt a NaN = False"
| "f_lt (Fin x) (Fin y) = (x < y)"
| "f_lt a NInf = False"
| "f_lt NInf b = True"
| "f_lt PInf b = False"
| "f_lt a PInf = True"

fun f_le :: "float64 \<Rightarrow> float64 \<Rightarrow> bool" where
  "f_le NaN b = False"
| "f_le a NaN = False"
| "f_le (Fin x) (Fin y) = (x \<le> y)"
| "f_le NInf b = True"
| "f_le a PInf = True"
| "f_le a b = False"

definition f_ge :: "float64 \<Rightarrow> float64 \<Rightarrow> bool" where
  "f_ge a b = f_le b a"

text \<open>
  Rounding to nearest, ties to even. \<open>rne y\<close> is the integer nearest to \<open>y\<close>, the even one
  of the two when \<open>y\<close> is halfway. \<open>binade x\<close> is the exponent \<open>e\<close> with
  \<open>2^e \<le> |x| < 2^(e+1)\<close>, not below \<open>-1022\<close> (the subnormal range); the doubles there
  are the multiples of \<open>2^(e-52)\<close>. \<open>round64 x\<close> is the double nearest to \<open>x\<close>, an
  infinity when that is \<open>2^1024\<close> or beyond. A float literal of the source, such as
  \<^verbatim>\<open>0.2\<close>, is \<open>round64 (1/5)\<close>.
\<close>

definition rne :: "real \<Rightarrow> int" where
  "rne y =
     (let f = \<lfloor>y\<rfloor>; r = y - of_int f in
      if r < 1/2 then f else if 1/2 < r then f + 1 else if even f then f else f + 1)"

definition binade :: "real \<Rightarrow> int" where
  "binade x = max \<lfloor>log 2 \<bar>x\<bar>\<rfloor> (- 1022)"

definition round64 :: "real \<Rightarrow> float64" where
  "round64 x =
     (if x = 0 then Fin 0
      else let u = 2 powi (binade x - 52); y = of_int (rne (x / u)) * u in
        if 2 ^ 1024 \<le> \<bar>y\<bar> then (if 0 < x then PInf else NInf) else Fin y)"

text \<open>
  The arithmetic: each operation returns the exact result rounded; NaN operands give NaN,
  as do \<open>inf - inf\<close>, \<open>0 * inf\<close> and the square root of a negative number.
\<close>

fun f_neg :: "float64 \<Rightarrow> float64" where
  "f_neg NaN = NaN"
| "f_neg NInf = PInf"
| "f_neg (Fin x) = Fin (- x)"
| "f_neg PInf = NInf"

fun f_add :: "float64 \<Rightarrow> float64 \<Rightarrow> float64" where
  "f_add NaN b = NaN"
| "f_add a NaN = NaN"
| "f_add (Fin x) (Fin y) = round64 (x + y)"
| "f_add PInf NInf = NaN"
| "f_add NInf PInf = NaN"
| "f_add PInf b = PInf"
| "f_add a PInf = PInf"
| "f_add NInf b = NInf"
| "f_add a NInf = NInf"

definition f_sub :: "float64 \<Rightarrow> float64 \<Rightarrow> float64" where
  "f_sub a b = f_add a (f_neg b)"

fun f_mul :: "float64 \<Rightarrow> float64 \<Rightarrow> float64" where
  "f_mul NaN b = NaN"
| "f_mul a NaN = NaN"
| "f_mul (Fin x) (Fin y) = round64 (x * y)"
| "f_mul (Fin x) b = (if x = 0 then NaN else if 0 < x then b else f_neg b)"
| "f_mul a (Fin y) = (if y = 0 then NaN else if 0 < y then a else f_neg a)"
| "f_mul a b = (if a = b then PInf else NInf)"

text \<open>
  The fused multiply-add \<open>x * y + z\<close>, rounded once. With finite factors an infinite or NaN
  \<open>z\<close> is the result; with a factor that is not finite nothing is rounded and the result
  is that of the product and the sum.
\<close>

fun f_fma :: "float64 \<Rightarrow> float64 \<Rightarrow> float64 \<Rightarrow> float64" where
  "f_fma (Fin x) (Fin y) (Fin z) = round64 (x * y + z)"
| "f_fma (Fin x) (Fin y) z = z"
| "f_fma x y z = f_add (f_mul x y) z"

fun f_sqrt :: "float64 \<Rightarrow> float64" where
  "f_sqrt NaN = NaN"
| "f_sqrt NInf = NaN"
| "f_sqrt (Fin x) = (if x < 0 then NaN else round64 (sqrt x))"
| "f_sqrt PInf = PInf"

section \<open>Data model of CSCI3302\_hw2\_rrt.py\<close>

text \<open>
  An n-dimensional point is a one-dimensional numpy array of float64: the list of its
  coordinates.
\<close>

type_synonym vec = "float64 list"

text \<open>The exceptions the modelled code can raise.\<close>

datatype error = NotImplementedError | IndexError | ValueError

text \<open>
  \<^verbatim>\<open>class Node\<close>: \<^verbatim>\<open>point\<close>, \<^verbatim>\<open>parent\<close> and \<^verbatim>\<open>path_from_parent\<close>. A Node is a
  Python object, and \<^verbatim>\<open>parent\<close> is a reference to another Node object or \<^verbatim>\<open>None\<close>: a
  reference is the address of the object in the store below.
\<close>

record Node =
  point :: vec
  parent :: "nat option"
  path_from_parent :: "vec list"

text \<open>
  The part of the interpreter's state the code touches: the Node objects allocated so far
  (the object at address \<open>a\<close> is \<open>heap s ! a\<close>), and the two random generators,
  \<^verbatim>\<open>random.random\<close> and \<^verbatim>\<open>np.random.rand\<close>, each an infinite sequence of numbers in
  \<open>[0, 1)\<close> with the number of values drawn from it so far.
\<close>

record pystate =
  heap :: "Node list"
  random_seq :: "nat \<Rightarrow> real"
  random_pos :: nat
  np_random_seq :: "nat \<Rightarrow> real"
  np_random_pos :: nat

text \<open>\<^verbatim>\<open>Node.__init__(self, pt, parent=None)\<close>: a new object, its path empty.\<close>

definition Node_init :: "vec \<Rightarrow> nat option \<Rightarrow> pystate \<Rightarrow> nat \<times> pystate" where
  "Node_init pt par s =
     (length (heap s),
      s\<lparr>heap := heap s @ [\<lparr>point = pt, parent = par, path_from_parent = []\<rparr>]\<rparr>)"

section \<open>numpy operations\<close>

text \<open>
  \<^verbatim>\<open>a - b\<close> on one-dimensional arrays: elementwise on equal shapes, an array of length one
  is broadcast, any other pair of shapes raises ValueError.
\<close>

definition np_sub :: "vec \<Rightarrow> vec \<Rightarrow> error + vec" where
  "np_sub a b =
     (if length a = length b then Inr (map2 f_sub a b)
      else if length a = 1 then Inr (map (\<lambda>y. f_sub (hd a) y) b)
      else if length b = 1 then Inr (map (\<lambda>x. f_sub x (hd b)) a)
      else Inl ValueError)"

text \<open>
  \<^verbatim>\<open>np.linalg.norm(x)\<close> of a one-dimensional array is \<^verbatim>\<open>sqrt(dot(x, x))\<close>. The dot product
  is the loop \<^verbatim>\<open>dot += x[i] * y[i]\<close> of the BLAS kernel behind numpy, from the left. What
  the source does not fix is how a step rounds: the kernel of one machine rounds the
  product and then the sum, that of another contracts the step into one fused
  multiply-add. That choice is the parameter \<open>fused\<close> of the model, and of everything
  that computes a norm; the theorems hold for both values.
\<close>

definition np_dot :: "bool \<Rightarrow> vec \<Rightarrow> vec \<Rightarrow> float64" where
  "np_dot fused a b =
     foldl (\<lambda>acc (x, y). if fused then f_fma x y acc else f_add acc (f_mul x y)) (Fin 0)
       (zip a b)"

definition linalg_norm :: "bool \<Rightarrow> vec \<Rightarrow> float64" where
  "linalg_norm fused x = f_sqrt (np_dot fused x x)"

section \<open>The validity predicate of the worlds\<close>

text \<open>
  \<^verbatim>\<open>state_is_valid\<close> is a closure, textually the same in \<^verbatim>\<open>setup_random_2d_world\<close> and in
  \<^verbatim>\<open>setup_fixed_test_2d_world\<close>; the variables it captures, \<^verbatim>\<open>state_bounds\<close> (an array of
  shape n x 2, here the list of its rows) and \<^verbatim>\<open>obstacles\<close> (a list of [centre, radius]),
  are arguments here, after \<open>fused\<close>.

  The first loop, \<^verbatim>\<open>for dim in range(state_bounds.shape[0])\<close>, from row \<open>d\<close> on (\<open>d\<close> is the
  loop variable \<^verbatim>\<open>dim\<close>):
  \<open>Inr False\<close> is its \<^verbatim>\<open>return False\<close>, \<open>Inr True\<close> is falling through the loop, and
  \<^verbatim>\<open>state[dim]\<close> raises IndexError beyond the end of \<^verbatim>\<open>state\<close>.
\<close>

fun bounds_loop :: "(float64 \<times> float64) list \<Rightarrow> nat \<Rightarrow> vec \<Rightarrow> error + bool" where
  "bounds_loop [] d state = Inr True"
| "bounds_loop ((lo, hi) # rows) d state =
     (if d < length state then
        (if f_lt (state ! d) lo then Inr False
         else if f_ge (state ! d) hi then Inr False
         else bounds_loop rows (Suc d) state)
      else Inl IndexError)"

text \<open>The second loop, \<^verbatim>\<open>for obs in obstacles\<close>.\<close>

fun obstacles_loop :: "bool \<Rightarrow> (vec \<times> float64) list \<Rightarrow> vec \<Rightarrow> error + bool" where
  "obstacles_loop fused [] state = Inr True"
| "obstacles_loop fused ((centre, radius) # obs) state =
     (case np_sub state centre of
        Inl e \<Rightarrow> Inl e
      | Inr d \<Rightarrow>
          if f_le (linalg_norm fused d) radius then Inr False
          else obstacles_loop fused obs state)"

definition state_is_valid ::
  "bool \<Rightarrow> (float64 \<times> float64) list \<Rightarrow> (vec \<times> float64) list \<Rightarrow> vec \<Rightarrow> error + bool"
  where
  "state_is_valid fused state_bounds obstacles state =
     (case bounds_loop state_bounds 0 state of
        Inl e \<Rightarrow> Inl e
      | Inr False \<Rightarrow> Inr False
      | Inr True \<Rightarrow> obstacles_loop fused obstacles state)"

text \<open>
  \<^verbatim>\<open>setup_fixed_test_2d_world\<close>: the unit square (the bounds are the integers 0 and 1)
  with three circular obstacles, their centres and radii float literals.
\<close>

definition fixed_state_bounds :: "(float64 \<times> float64) list" where
  "fixed_state_bounds = [(Fin 0, Fin 1), (Fin 0, Fin 1)]"

definition fixed_obstacles :: "(vec \<times> float64) list" where
  "fixed_obstacles =
     [([round64 (1/2), round64 (1/2)], round64 (1/5)),
      ([round64 (1/10), round64 (7/10)], round64 (1/10)),
      ([round64 (7/10), round64 (1/5)], round64 (1/10))]"

definition setup_fixed_test_2d_world ::
  "bool \<Rightarrow> (float64 \<times> float64) list \<times> (vec \<times> float64) list \<times> (vec \<Rightarrow> error + bool)"
  where
  "setup_fixed_test_2d_world fused =
     (fixed_state_bounds, fixed_obstacles,
      state_is_valid fused fixed_state_bounds fixed_obstacles)"

text \<open>
  \<^verbatim>\<open>random.random()\<close> and \<^verbatim>\<open>np.random.rand(n)\<close>: the next value, and the next \<open>n\<close> values,
  of the generator's sequence.
\<close>

definition random_random :: "pystate \<Rightarrow> float64 \<times> pystate" where
  "random_random s =
     (Fin (random_seq s (random_pos s)), s\<lparr>random_pos := Suc (random_pos s)\<rparr>)"

definition np_random_rand :: "nat \<Rightarrow> pystate \<Rightarrow> vec \<times> pystate" where
  "np_random_rand n s =
     (map (\<lambda>i. Fin (np_random_seq s i)) [np_random_pos s ..< np_random_pos s + n],
      s\<lparr>np_random_pos := np_random_pos s + n\<rparr>)"

text \<open>
  \<^verbatim>\<open>get_nd_obstacle\<close>: the loop over the rows of \<^verbatim>\<open>state_bounds\<close> that appends one
  coordinate of the centre per dimension, then the radius.
\<close>

fun center_loop :: "(float64 \<times> float64) list \<Rightarrow> vec \<Rightarrow> pystate \<Rightarrow> vec \<times> pystate" where
  "center_loop [] center_vector s = (center_vector, s)"
| "center_loop ((lo, hi) # rows) center_vector s =
     (case random_random s of
        (u, s') \<Rightarrow>
          center_loop rows (center_vector @ [f_add lo (f_mul u (f_sub hi lo))]) s')"

definition get_nd_obstacle ::
  "(float64 \<times> float64) list \<Rightarrow> pystate \<Rightarrow> (vec \<times> float64) \<times> pystate" where
  "get_nd_obstacle state_bounds s =
     (case center_loop state_bounds [] s of
        (center_vector, s1) \<Rightarrow>
          (case random_random s1 of
             (u, s2) \<Rightarrow> ((center_vector, f_mul u (round64 (6/10))), s2)))"

text \<open>
  \<^verbatim>\<open>setup_random_2d_world\<close>: \<^verbatim>\<open>for n in range(30): obstacles.append(...)\<close> is
  \<open>obstacles_gen 30\<close>.
\<close>

fun obstacles_gen ::
  "nat \<Rightarrow> (float64 \<times> float64) list \<Rightarrow> (vec \<times> float64) list \<Rightarrow> pystate \<Rightarrow>
   (vec \<times> float64) list \<times> pystate" where
  "obstacles_gen 0 state_bounds obstacles s = (obstacles, s)"
| "obstacles_gen (Suc n) state_bounds obstacles s =
     (case get_nd_obstacle state_bounds s of
        (obs, s') \<Rightarrow> obstacles_gen n state_bounds (obstacles @ [obs]) s')"

definition setup_random_2d_world ::
  "bool \<Rightarrow> pystate \<Rightarrow>
   ((float64 \<times> float64) list \<times> (vec \<times> float64) list \<times> (vec \<Rightarrow> error + bool)) \<times> pystate"
  where
  "setup_random_2d_world fused s =
     (let state_bounds = [(Fin 0, Fin 10), (Fin 0, Fin 10)] in
      case obstacles_gen 30 state_bounds [] s of
        (obstacles, s') \<Rightarrow>
          ((state_bounds, obstacles, state_is_valid fused state_bounds obstacles), s'))"

section \<open>The sampler\<close>

text \<open>
  \<^verbatim>\<open>get_random_valid_vertex\<close>: the \<^verbatim>\<open>while vertex is None\<close> loop draws a point in the
  bounds until the validity predicate (the argument \<^verbatim>\<open>state_is_valid\<close>, here \<open>is_valid\<close>)
  accepts one. Nothing bounds the number of rounds: \<open>None\<close> is the loop that never ends.
\<close>

partial_function (option) get_random_valid_vertex ::
  "(vec \<Rightarrow> error + bool) \<Rightarrow> (float64 \<times> float64) list \<Rightarrow> pystate \<Rightarrow>
   ((error + vec) \<times> pystate) option"
  where
  "get_random_valid_vertex is_valid bounds s =
     (case np_random_rand (length bounds) s of
        (r, s') \<Rightarrow>
          (case is_valid (map2 (\<lambda>u (lo, hi). f_add (f_mul u (f_sub hi lo)) lo) r bounds) of
             Inl e \<Rightarrow> Some (Inl e, s')
           | Inr ok \<Rightarrow>
               if ok
               then Some (Inr (map2 (\<lambda>u (lo, hi). f_add (f_mul u (f_sub hi lo)) lo) r bounds), s')
               else get_random_valid_vertex is_valid bounds s'))"

section \<open>The planner\<close>

text \<open>
  \<^verbatim>\<open>get_nearest_vertex\<close>, \<^verbatim>\<open>steer\<close> and \<^verbatim>\<open>check_path_valid\<close>: the body of each is the
  statement \<^verbatim>\<open>raise NotImplementedError\<close> (in \<^verbatim>\<open>steer\<close> the \<^verbatim>\<open>return path\<close> after it is
  never reached). \<^verbatim>\<open>node_list\<close> is a list of references to Node objects.
\<close>

definition get_nearest_vertex :: "nat list \<Rightarrow> vec \<Rightarrow> pystate \<Rightarrow> error + nat" where
  "get_nearest_vertex node_list q_point s = Inl NotImplementedError"

definition steer :: "vec \<Rightarrow> vec \<Rightarrow> float64 \<Rightarrow> error + vec list" where
  "steer from_point to_point delta_q = Inl NotImplementedError"

definition check_path_valid :: "vec list \<Rightarrow> (vec \<Rightarrow> error + bool) \<Rightarrow> error + bool" where
  "check_path_valid path is_valid = Inl NotImplementedError"

text \<open>
  \<^verbatim>\<open>rrt\<close>: \<^verbatim>\<open>node_list = []\<close>, then \<^verbatim>\<open>node_list.append(Node(starting_point, parent=None))\<close>,
  then \<^verbatim>\<open>return node_list\<close>; between the two there are only comments. The result is the
  list of references and the state with the new object in it.
\<close>

definition rrt ::
  "(float64 \<times> float64) list \<Rightarrow> (vec \<Rightarrow> error + bool) \<Rightarrow> vec \<Rightarrow> vec option \<Rightarrow> int \<Rightarrow>
   float64 \<Rightarrow> pystate \<Rightarrow> (error + nat list) \<times> pystate" where
  "rrt state_bounds is_valid starting_point goal_point k delta_q s =
     (case Node_init starting_point None s of
        (n, s') \<Rightarrow> (Inr ([] @ [n]), s'))"

text \<open>
  The test of \<^verbatim>\<open>visualize_2D_graph\<close> for a node that stands for the goal, and the one
  the docstring of \<^verbatim>\<open>rrt\<close> names:
  \<^verbatim>\<open>np.linalg.norm(node.point - np.array(goal_point)) <= 1e-5\<close>.
\<close>

definition goal_proxy :: "bool \<Rightarrow> vec \<Rightarrow> vec \<Rightarrow> error + bool" where
  "goal_proxy fused node_point goal_point =
     (case np_sub node_point goal_point of
        Inl e \<Rightarrow> Inl e
      | Inr d \<Rightarrow> Inr (f_le (linalg_norm fused d) (round64 (1 / 100000))))"

section \<open>The condition of the specification, for comparison\<close>



section \<open>Evaluating the rounding\<close>

text \<open>A number strictly between two neighbouring half-integers rounds to the integer between.\<close>

lemma rne_bracket:
  assumes "of_int m - 1/2 < y" "y < of_int m + 1/2"
  shows "rne y = m"
proof (cases "of_int m \<le> y")
  case True
  with assms have "\<lfloor>y\<rfloor> = m" by (intro floor_unique) auto
  with assms show ?thesis by (simp add: rne_def Let_def)
next
  case False
  with assms have "\<lfloor>y\<rfloor> = m - 1" by (intro floor_unique) auto
  with assms False show ?thesis by (simp add: rne_def Let_def)
qed

lemma rne_le: "rne y \<le> \<lfloor>y\<rfloor> + 1"
  by (simp add: rne_def Let_def)

lemma rne_ge: "\<lfloor>y\<rfloor> \<le> rne y"
  by (simp add: rne_def Let_def)

lemma binade_eq:
  assumes "- 1022 \<le> e" "2 powi e \<le> \<bar>x\<bar>" "\<bar>x\<bar> < 2 powi (e + 1)"
  shows "binade x = e"
proof -
  have "(0::real) < 2 powi e" by simp
  with assms(2) have pos: "0 < \<bar>x\<bar>" by linarith
  have p1: "2 powr (real_of_int e) = (2::real) powi e"
    by (rule powr_real_of_int') auto
  have "2 powr (real_of_int (e + 1)) = (2::real) powi (e + 1)"
    by (rule powr_real_of_int') auto
  then have p2: "2 powr (real_of_int e + 1) = (2::real) powi (e + 1)"
    by (simp only: of_int_add of_int_1)
  have "2 powr (real_of_int e) \<le> \<bar>x\<bar> \<and> \<bar>x\<bar> < 2 powr (real_of_int e + 1)"
    using assms(2,3) by (simp only: p1 p2)
  then have "\<lfloor>log 2 \<bar>x\<bar>\<rfloor> = e"
    using pos by (subst floor_log_eq_powr_iff) simp_all
  with assms(1) show ?thesis by (simp add: binade_def)
qed

text \<open>
  The rounding of a number \<open>x\<close> of the normal range, once its binade \<open>e\<close> is known: the
  nearest multiple of \<open>u = 2^(e-52)\<close>.
\<close>

lemma round64_eval:
  assumes e: "- 1022 \<le> e" "e \<le> 1022" and u: "u = 2 powi (e - 52)"
    and lo: "2 powi e \<le> \<bar>x\<bar>" and hi: "\<bar>x\<bar> < 2 powi (e + 1)"
    and m: "rne (x / u) = m" and y: "y = of_int m * u"
  shows "round64 x = Fin y"
proof -
  have b: "binade x = e" using e(1) lo hi by (rule binade_eq)
  have upos: "0 < u" by (simp add: u)
  have e0: "(0::real) < 2 powi e" by simp
  have x0: "x \<noteq> 0"
  proof
    assume "x = 0"
    with lo have "2 powi e \<le> (0::real)" by simp
    with e0 show False by linarith
  qed
  have "(2::real) powi (53 + (e - 52)) = 2 powi 53 * 2 powi (e - 52)"
    by (rule power_int_add) simp
  moreover have "53 + (e - 52) = e + 1" by simp
  ultimately have two: "(2::real) powi (e + 1) = 2 powi 53 * u"
    unfolding u by (simp only:)
  have "\<bar>x\<bar> / u < 2 powi 53"
    using hi upos two by (simp add: field_simps)
  moreover have "\<bar>u\<bar> = u"
    using upos by simp
  ultimately have ax: "\<bar>x / u\<bar> < 2 ^ 53"
    by (simp add: abs_divide)
  have q: "x / u < 2 ^ 53" "- (2 ^ 53) < x / u"
    using ax by linarith+
  have "\<lfloor>x / u\<rfloor> < 2 ^ 53"
    using q(1) by (simp add: floor_less_iff)
  with rne_le [of "x / u"] have up: "m \<le> 2 ^ 53"
    unfolding m by linarith
  have "- (2 ^ 53) \<le> \<lfloor>x / u\<rfloor>"
    using q(2) by (simp add: le_floor_iff)
  with rne_ge [of "x / u"] have dn: "- (2 ^ 53) \<le> m"
    unfolding m by linarith
  have "real_of_int m \<le> real_of_int (2 ^ 53)" "real_of_int (- (2 ^ 53)) \<le> real_of_int m"
    using up dn by (simp_all only: of_int_le_iff)
  then have "\<bar>real_of_int m\<bar> \<le> 2 ^ 53"
    by simp
  then have "\<bar>y\<bar> \<le> 2 powi 53 * u"
    unfolding y using upos by (simp add: abs_mult mult_right_mono)
  also have "\<dots> = 2 powi (e + 1)" by (simp add: two)
  also have "\<dots> \<le> 2 powi 1023"
    using e(2) by (intro power_int_increasing) auto
  also have "\<dots> < (2::real) ^ 1024" by simp
  finally have "\<not> 2 ^ 1024 \<le> \<bar>y\<bar>" by simp
  then have ny: "\<not> 2 ^ 1024 \<le> \<bar>real_of_int m * 2 powi (e - 52)\<bar>"
    unfolding y u .
  have r: "rne (x / 2 powi (e - 52)) = m"
    using m unfolding u .
  show ?thesis
    unfolding round64_def Let_def b r using x0 ny by (simp only: if_False y u)
qed

text \<open>
  The rounding of a square root: \<open>m * u\<close> is the double nearest to \<open>sqrt v\<close> when \<open>v\<close>
  lies strictly between the squares of the two midpoints around it.
\<close>

lemma round64_sqrt_eval:
  assumes e: "- 1022 \<le> e" "e \<le> 1022" and u: "u = 2 powi (e - 52)"
    and lo: "(2 powi e)\<^sup>2 \<le> v" and hi: "v < (2 powi (e + 1))\<^sup>2"
    and m0: "1 \<le> m"
    and b1: "((of_int m - 1/2) * u)\<^sup>2 < v" and b2: "v < ((of_int m + 1/2) * u)\<^sup>2"
    and y: "y = of_int m * u"
  shows "round64 (sqrt v) = Fin y"
proof -
  have upos: "0 < u" by (simp add: u)
  have v0: "0 \<le> v"
    using lo by (smt (verit) zero_le_power2)
  have s0: "0 \<le> sqrt v" using v0 by simp
  have l: "2 powi e \<le> sqrt v"
    using lo by (rule real_le_rsqrt)
  have h: "sqrt v < 2 powi (e + 1)"
    using hi by (intro real_less_lsqrt) simp_all
  have "(of_int m - 1/2) * u < sqrt v"
    using b1 by (rule real_less_rsqrt)
  then have c1: "of_int m - 1/2 < sqrt v / u"
    using upos by (simp add: field_simps)
  have "0 \<le> (of_int m + 1/2) * u"
    using m0 upos by simp
  then have "sqrt v < (of_int m + 1/2) * u"
    using b2 by (intro real_less_lsqrt) simp_all
  then have c2: "sqrt v / u < of_int m + 1/2"
    using upos by (simp add: field_simps)
  have r: "rne (sqrt v / u) = m"
    using c1 c2 by (rule rne_bracket)
  show ?thesis
    using e u _ _ r y
  proof (rule round64_eval)
    show "2 powi e \<le> \<bar>sqrt v\<bar>" using l s0 by simp
    show "\<bar>sqrt v\<bar> < 2 powi (e + 1)" using h s0 by simp
  qed
qed

section \<open>The validity predicate: bounds and obstacles\<close>






lemma not_f_le: "a \<noteq> NaN \<Longrightarrow> b \<noteq> NaN \<Longrightarrow> (\<not> f_le a b) = f_lt b a"
  by (cases a; cases b) auto

subsection \<open>The shapes in the two worlds\<close>

text \<open>
  In both worlds \<^verbatim>\<open>state_bounds\<close> has two rows and every obstacle centre two coordinates:
  in the fixed world by its literals, in the random world because \<^verbatim>\<open>get_nd_obstacle\<close>
  appends one coordinate per row.
\<close>

lemma fixed_world_shapes:
  "length fixed_state_bounds = 2" "\<forall>(c, r)\<in>set fixed_obstacles. length c = 2"
  by (simp_all add: fixed_state_bounds_def fixed_obstacles_def)

lemma center_loop_length:
  "length (fst (center_loop rows center_vector s)) = length center_vector + length rows"
  by (induction rows center_vector s rule: center_loop.induct) (auto split: prod.splits)

lemma get_nd_obstacle_length:
  "length (fst (fst (get_nd_obstacle state_bounds s))) = length state_bounds"
proof -
  obtain cv s1 where c: "center_loop state_bounds [] s = (cv, s1)"
    by (cases "center_loop state_bounds [] s")
  with center_loop_length [of state_bounds "[]" s] have "length cv = length state_bounds"
    by simp
  with c show ?thesis
    by (simp add: get_nd_obstacle_def split: prod.splits)
qed

lemma obstacles_gen_lengths:
  "\<forall>(c, r)\<in>set obstacles. length c = length state_bounds \<Longrightarrow>
   \<forall>(c, r)\<in>set (fst (obstacles_gen n state_bounds obstacles s)). length c = length state_bounds"
proof (induction n arbitrary: obstacles s)
  case 0
  then show ?case by simp
next
  case (Suc n)
  obtain obs s' where g: "get_nd_obstacle state_bounds s = (obs, s')"
    by (cases "get_nd_obstacle state_bounds s")
  with get_nd_obstacle_length [of state_bounds s]
  have "length (fst obs) = length state_bounds" by simp
  with Suc.prems have "\<forall>(c, r)\<in>set (obstacles @ [obs]). length c = length state_bounds"
    by (cases obs) auto
  then have "\<forall>(c, r)\<in>set (fst (obstacles_gen n state_bounds (obstacles @ [obs]) s')).
      length c = length state_bounds"
    by (rule Suc.IH)
  with g show ?case by simp
qed

lemma random_world_shapes:
  assumes "setup_random_2d_world fused s = ((state_bounds, obstacles, is_valid), s')"
  shows "length state_bounds = 2"
    and "\<forall>(c, r)\<in>set obstacles. length c = 2"
    and "is_valid = state_is_valid fused state_bounds obstacles"
proof -
  obtain obs s1 where g: "obstacles_gen 30 [(Fin 0, Fin 10), (Fin 0, Fin 10)] [] s = (obs, s1)"
    by (cases "obstacles_gen 30 [(Fin 0, Fin 10), (Fin 0, Fin 10)] [] s")
  with assms have eqs: "state_bounds = [(Fin 0, Fin 10), (Fin 0, Fin 10)]" "obstacles = obs"
    "is_valid = state_is_valid fused state_bounds obstacles"
    by (auto simp: setup_random_2d_world_def Let_def)
  show "length state_bounds = 2" using eqs by simp
  show "is_valid = state_is_valid fused state_bounds obstacles" using eqs by simp
  from obstacles_gen_lengths [of "[]" "[(Fin 0, Fin 10), (Fin 0, Fin 10)]" 30 s] g eqs
  show "\<forall>(c, r)\<in>set obstacles. length c = 2" by (simp add: numeral_2_eq_2)
qed

section \<open>The numbers of the fixed world\<close>



lemma lit_1_10: "round64 (1/10) = Fin (3602879701896397 / 2 ^ 55)"
  by (rule round64_eval [where e = "-4" and m = "7205759403792794" and u = "1 / 2 ^ 56"])
       (simp_all add: rne_def Let_def power_int_minus)



lemma lit_1e_5: "round64 (1/100000) = Fin (5902958103587057 / 2 ^ 69)"
  by (rule round64_eval [where e = "-17" and m = "5902958103587057" and u = "1 / 2 ^ 69"])
       (simp_all add: rne_def Let_def power_int_minus)













lemma norm_start_goal_plain:
  "linalg_norm False (map2 f_sub [Fin 0, Fin 0] [Fin (3602879701896397 / 2 ^ 55), Fin 0]) = Fin (3602879701896397 / 2 ^ 55)"
proof -
  have s0: "f_sub (Fin 0) (Fin (3602879701896397 / 2 ^ 55)) = Fin (- (3602879701896397 / 2 ^ 55))"
    unfolding f_sub_def f_neg.simps f_add.simps
    by (rule round64_eval [where e = "-4" and m = "-7205759403792794" and u = "1 / 2 ^ 56"])
       (simp_all add: rne_def Let_def power_int_minus)
  have s1: "f_sub (Fin 0) (Fin 0) = Fin 0"
    by (simp add: f_sub_def round64_def)
  have m0: "f_mul (Fin (- (3602879701896397 / 2 ^ 55))) (Fin (- (3602879701896397 / 2 ^ 55))) = Fin (1441151880758559 / 2 ^ 57)"
    unfolding f_mul.simps
    by (rule round64_eval [where e = "-7" and m = "5764607523034236" and u = "1 / 2 ^ 59"])
       (simp_all add: rne_def Let_def power_int_minus)
  have m1: "f_mul (Fin 0) (Fin 0) = Fin 0"
    by (simp add: round64_def)
  have a0: "f_add (Fin 0) (Fin (1441151880758559 / 2 ^ 57)) = Fin (1441151880758559 / 2 ^ 57)"
    unfolding f_add.simps
    by (rule round64_eval [where e = "-7" and m = "5764607523034236" and u = "1 / 2 ^ 59"])
       (simp_all add: rne_def Let_def power_int_minus)
  have a1: "f_add (Fin (1441151880758559 / 2 ^ 57)) (Fin 0) = Fin (1441151880758559 / 2 ^ 57)"
    unfolding f_add.simps
    by (rule round64_eval [where e = "-7" and m = "5764607523034236" and u = "1 / 2 ^ 59"])
       (simp_all add: rne_def Let_def power_int_minus)
  have q: "f_sqrt (Fin (1441151880758559 / 2 ^ 57)) = Fin (3602879701896397 / 2 ^ 55)"
  proof -
    have "round64 (sqrt (1441151880758559 / 2 ^ 57)) = Fin (3602879701896397 / 2 ^ 55)"
      by (rule round64_sqrt_eval [where e = "-4" and m = "7205759403792794" and u = "1 / 2 ^ 56"])
         (simp_all add: power_int_minus power2_eq_square)
    then show ?thesis by simp
  qed
  show ?thesis
    by (simp only: linalg_norm_def np_dot_def zip_Cons_Cons zip_Nil list.map prod.case foldl_Cons foldl_Nil if_True if_False s0 s1 m0 m1 a0 a1 q)
qed

lemma norm_start_goal_fused:
  "linalg_norm True (map2 f_sub [Fin 0, Fin 0] [Fin (3602879701896397 / 2 ^ 55), Fin 0]) = Fin (3602879701896397 / 2 ^ 55)"
proof -
  have s0: "f_sub (Fin 0) (Fin (3602879701896397 / 2 ^ 55)) = Fin (- (3602879701896397 / 2 ^ 55))"
    unfolding f_sub_def f_neg.simps f_add.simps
    by (rule round64_eval [where e = "-4" and m = "-7205759403792794" and u = "1 / 2 ^ 56"])
       (simp_all add: rne_def Let_def power_int_minus)
  have s1: "f_sub (Fin 0) (Fin 0) = Fin 0"
    by (simp add: f_sub_def round64_def)
  have a0: "f_fma (Fin (- (3602879701896397 / 2 ^ 55))) (Fin (- (3602879701896397 / 2 ^ 55))) (Fin 0) = Fin (1441151880758559 / 2 ^ 57)"
    unfolding f_fma.simps
    by (rule round64_eval [where e = "-7" and m = "5764607523034236" and u = "1 / 2 ^ 59"])
       (simp_all add: rne_def Let_def power_int_minus)
  have a1: "f_fma (Fin 0) (Fin 0) (Fin (1441151880758559 / 2 ^ 57)) = Fin (1441151880758559 / 2 ^ 57)"
    unfolding f_fma.simps
    by (rule round64_eval [where e = "-7" and m = "5764607523034236" and u = "1 / 2 ^ 59"])
       (simp_all add: rne_def Let_def power_int_minus)
  have q: "f_sqrt (Fin (1441151880758559 / 2 ^ 57)) = Fin (3602879701896397 / 2 ^ 55)"
  proof -
    have "round64 (sqrt (1441151880758559 / 2 ^ 57)) = Fin (3602879701896397 / 2 ^ 55)"
      by (rule round64_sqrt_eval [where e = "-4" and m = "7205759403792794" and u = "1 / 2 ^ 56"])
         (simp_all add: power_int_minus power2_eq_square)
    then show ?thesis by simp
  qed
  show ?thesis
    by (simp only: linalg_norm_def np_dot_def zip_Cons_Cons zip_Nil list.map prod.case foldl_Cons foldl_Nil if_True if_False s0 s1 a0 a1 q)
qed

section \<open>The sampler draws from the generator\<close>

text \<open>
  Every call of \<^verbatim>\<open>get_random_valid_vertex\<close> that returns has drawn at least one point,
  that is one value per dimension, from \<^verbatim>\<open>np.random\<close>: a sampling attempt moves the
  generator on.
\<close>

lemma get_random_valid_vertex_draws:
  assumes "get_random_valid_vertex is_valid bounds s = Some res"
  shows "np_random_pos s + length bounds \<le> np_random_pos (snd res)"
proof (rule get_random_valid_vertex.raw_induct
    [where P = "\<lambda>is_valid bounds s res. np_random_pos s + length bounds \<le> np_random_pos (snd res)",
      OF _ assms], goal_cases)
  case (1 f is_valid bounds s res)
  then show ?case
    by (fastforce simp: np_random_rand_def split: sum.splits if_splits)
qed

section \<open>The planner as the file has it\<close>

text \<open>What \<^verbatim>\<open>rrt\<close> returns, on every input: one reference, to the new root object.\<close>

lemma rrt_result:
  "rrt state_bounds is_valid starting_point goal_point k delta_q s =
     (Inr [length (heap s)],
      s\<lparr>heap := heap s @ [\<lparr>point = starting_point, parent = None, path_from_parent = []\<rparr>]\<rparr>)"
  by (simp add: rrt_def Node_init_def)

text \<open>
  Claim C1 says that \<^verbatim>\<open>steer\<close> returns ten evenly spaced points from \<^verbatim>\<open>from_point\<close> to
  the effective target, and ten copies of the point when the two points are equal. The
  function of the file returns nothing: on every input, equal points included, it raises
  NotImplementedError.
\<close>

theorem steer_never_returns:
  "steer from_point to_point delta_q = Inl NotImplementedError"
  by (simp add: steer_def)

text \<open>
  Claim C2 says that the effective target of \<^verbatim>\<open>steer\<close> is \<^verbatim>\<open>to_point\<close> within
  \<^verbatim>\<open>delta_q\<close> and the point at distance \<^verbatim>\<open>delta_q\<close> on the ray beyond it. On the two
  examples of the specification, the clipped \<^verbatim>\<open>steer([0,0], [10,10], 1.0)\<close> and the
  unclipped \<^verbatim>\<open>steer([0,0], [0.5,0.5], 5.0)\<close>, the function of the file raises
  NotImplementedError: no path ends at any target.
\<close>

theorem steer_examples_raise:
  "steer [Fin 0, Fin 0] [Fin 10, Fin 10] (Fin 1) = Inl NotImplementedError \<and>
   steer [Fin 0, Fin 0] [Fin (1/2), Fin (1/2)] (Fin 5) = Inl NotImplementedError"
  by (simp add: steer_def)

text \<open>
  Claim C3 says that \<^verbatim>\<open>get_nearest_vertex\<close>, on a non-empty list of nodes, returns the
  node nearest to the query point, the earliest one on a tie. The function of the file
  raises NotImplementedError on every non-empty list.
\<close>

theorem get_nearest_vertex_nonempty_raises:
  "get_nearest_vertex (n # node_list) q_point s = Inl NotImplementedError"
  by (simp add: get_nearest_vertex_def)

text \<open>
  Claim C4 says that \<^verbatim>\<open>check_path_valid\<close> returns true if and only if every point of the
  path is valid. On the empty path, and on the path of the one valid point \<open>(0.9, 0.9)\<close>
  of the fixed world, where the claim says true, the function of the file raises
  NotImplementedError.
\<close>

theorem check_path_valid_raises:
  "check_path_valid [] is_valid = Inl NotImplementedError \<and>
   check_path_valid [[round64 (9/10), round64 (9/10)]]
     (state_is_valid fused fixed_state_bounds fixed_obstacles) = Inl NotImplementedError"
  by (simp add: check_path_valid_def)

text \<open>
  Claim C5 says that \<^verbatim>\<open>rrt\<close> with a goal stops at the first node within \<open>1e-5\<close> of the
  goal, and that with a reachable goal within \<^verbatim>\<open>delta_q\<close> of the start and a large \<open>k\<close>
  the last node returned is within \<open>1e-5\<close> of the goal. In the fixed world, from the
  start \<open>(0, 0)\<close> with the goal \<open>(0.1, 0)\<close>, \<open>k = 250\<close> and \<open>delta_q = 0.2\<close>, the function
  of the file returns the root alone, and the root is not within \<open>1e-5\<close> of the goal: the
  norm computed is \<open>0.1\<close>.
\<close>

theorem rrt_goal_not_reached:
  "fst (rrt fixed_state_bounds (state_is_valid fused fixed_state_bounds fixed_obstacles)
          [Fin 0, Fin 0] (Some [round64 (1/10), Fin 0]) 250 (round64 (1/5)) s) =
     Inr [length (heap s)] \<and>
   goal_proxy fused
     (point (heap (snd (rrt fixed_state_bounds
          (state_is_valid fused fixed_state_bounds fixed_obstacles)
          [Fin 0, Fin 0] (Some [round64 (1/10), Fin 0]) 250 (round64 (1/5)) s)) !
        length (heap s)))
     [round64 (1/10), Fin 0] = Inr False"
proof -
  have ns: "np_sub [Fin 0, Fin 0] [Fin (3602879701896397 / 2 ^ 55), Fin 0] =
      Inr (map2 f_sub [Fin 0, Fin 0] [Fin (3602879701896397 / 2 ^ 55), Fin 0])"
    by (simp add: np_sub_def)
  have norm: "linalg_norm fused (map2 f_sub [Fin 0, Fin 0] [Fin (3602879701896397 / 2 ^ 55), Fin 0]) =
      Fin (3602879701896397 / 2 ^ 55)"
    by (cases fused) (simp_all only: norm_start_goal_plain norm_start_goal_fused)
  have "goal_proxy fused [Fin 0, Fin 0] [round64 (1/10), Fin 0] =
      Inr (f_le (Fin (3602879701896397 / 2 ^ 55)) (Fin (5902958103587057 / 2 ^ 69)))"
    by (simp only: goal_proxy_def lit_1_10 lit_1e_5 ns sum.case norm)
  also have "\<dots> = Inr False"
    by simp
  finally show ?thesis
    by (simp add: rrt_result)
qed

text \<open>
  Claim C6 says that \<^verbatim>\<open>rrt\<close> without a goal makes exactly \<open>k\<close> sampling attempts and
  then returns the nodes it has. With \<open>k = 250\<close> the function of the file returns the
  root alone and leaves both random generators where they were: it has drawn no sample.
\<close>

theorem rrt_draws_no_sample:
  "fst (rrt state_bounds is_valid starting_point None 250 delta_q s) = Inr [length (heap s)] \<and>
   np_random_pos (snd (rrt state_bounds is_valid starting_point None 250 delta_q s)) =
     np_random_pos s \<and>
   random_pos (snd (rrt state_bounds is_valid starting_point None 250 delta_q s)) =
     random_pos s"
  by (simp add: rrt_result)

text \<open>
  Claim C8. On every call, \<^verbatim>\<open>rrt\<close> returns a list of nodes that is not empty, and the
  node at its index 0 has the point \<^verbatim>\<open>starting_point\<close>, no parent and an empty
  \<^verbatim>\<open>path_from_parent\<close>.
\<close>

theorem rrt_root:
  "\<exists>node_list s'.
     rrt state_bounds is_valid starting_point goal_point k delta_q s = (Inr node_list, s') \<and>
     node_list \<noteq> [] \<and>
     node_list ! 0 < length (heap s') \<and>
     point (heap s' ! (node_list ! 0)) = starting_point \<and>
     parent (heap s' ! (node_list ! 0)) = None \<and>
     path_from_parent (heap s' ! (node_list ! 0)) = []"
  by (simp add: rrt_result)

section \<open>The validity predicate and the condition of the specification\<close>




end
